theory Spec2Isabelle
  imports Complex_Main "HOL-Library.AList"
begin

section \<open>Numbers of the data frames\<close>

text \<open>
  The columns of the program are float64 columns of pandas.  A cell is modelled as an exact
  rational, one of the two infinities, or NaN (which is also how pandas marks a missing
  cell).  Rounding, overflow of finite values and the sign of zero are abstracted: a finite
  operation gives the exact rational, and a zero divisor counts as a positive zero.
\<close>

datatype fnum = Fin rat | PInf | NInf | NaN

fun isna :: "fnum \<Rightarrow> bool" where
  "isna NaN = True"
| "isna _ = False"

fun fneg :: "fnum \<Rightarrow> fnum" where
  "fneg (Fin a) = Fin (- a)"
| "fneg PInf = NInf"
| "fneg NInf = PInf"
| "fneg NaN = NaN"

fun fadd :: "fnum \<Rightarrow> fnum \<Rightarrow> fnum" where
  "fadd (Fin a) (Fin b) = Fin (a + b)"
| "fadd (Fin a) PInf = PInf"
| "fadd (Fin a) NInf = NInf"
| "fadd PInf (Fin b) = PInf"
| "fadd PInf PInf = PInf"
| "fadd PInf NInf = NaN"
| "fadd NInf (Fin b) = NInf"
| "fadd NInf PInf = NaN"
| "fadd NInf NInf = NInf"
| "fadd NaN y = NaN"
| "fadd x NaN = NaN"

definition fsub :: "fnum \<Rightarrow> fnum \<Rightarrow> fnum" where
  "fsub x y = fadd x (fneg y)"

definition inf_of_sign :: "rat \<Rightarrow> fnum" where
  \<comment> \<open>an infinity times or over a finite number of the given sign; times zero it is NaN\<close>
  "inf_of_sign a = (if 0 < a then PInf else if a < 0 then NInf else NaN)"

fun fmul :: "fnum \<Rightarrow> fnum \<Rightarrow> fnum" where
  "fmul (Fin a) (Fin b) = Fin (a * b)"
| "fmul (Fin a) PInf = inf_of_sign a"
| "fmul (Fin a) NInf = inf_of_sign (- a)"
| "fmul PInf (Fin b) = inf_of_sign b"
| "fmul NInf (Fin b) = inf_of_sign (- b)"
| "fmul PInf PInf = PInf"
| "fmul PInf NInf = NInf"
| "fmul NInf PInf = NInf"
| "fmul NInf NInf = PInf"
| "fmul NaN y = NaN"
| "fmul x NaN = NaN"

fun fdiv :: "fnum \<Rightarrow> fnum \<Rightarrow> fnum" where
  "fdiv (Fin a) (Fin b) = (if b = 0 then inf_of_sign a else Fin (a / b))"
| "fdiv (Fin a) PInf = Fin 0"
| "fdiv (Fin a) NInf = Fin 0"
| "fdiv PInf (Fin b) = (if b < 0 then NInf else PInf)"
| "fdiv NInf (Fin b) = (if b < 0 then PInf else NInf)"
| "fdiv PInf PInf = NaN"
| "fdiv PInf NInf = NaN"
| "fdiv NInf PInf = NaN"
| "fdiv NInf NInf = NaN"
| "fdiv NaN y = NaN"
| "fdiv x NaN = NaN"

fun fgt :: "fnum \<Rightarrow> fnum \<Rightarrow> bool" where
  \<comment> \<open>the comparison \<open>x > y\<close> of floats: false as soon as one side is NaN\<close>
  "fgt (Fin a) (Fin b) = (b < a)"
| "fgt (Fin a) NInf = True"
| "fgt PInf (Fin b) = True"
| "fgt PInf NInf = True"
| "fgt x y = False"

section \<open>Dates and grouping by year\<close>

type_synonym date = "int \<times> nat \<times> nat"

definition dt_year :: "date \<Rightarrow> int" where
  "dt_year d = fst d"

definition group_keys :: "int list \<Rightarrow> int list" where
  \<comment> \<open>the keys of a pandas groupby: each key once, in ascending order\<close>
  "group_keys ks = sort (remdups ks)"

definition coluna_ano :: "(date \<times> 'a) list \<Rightarrow> int list" where
  \<comment> \<open>the column \<open>ano\<close> of a frame of dated points: the year of every row\<close>
  "coluna_ano df = map (\<lambda>(d, v). dt_year d) df"

section \<open>Return on equity: calcular_roe\<close>

record roe_row =
  Ano :: int
  Lucro_Liquido :: fnum
  PL_Controlador :: fnum
  PL_Inicial :: fnum
  ROE :: fnum

definition merge_inner :: "(int \<times> 'a) list \<Rightarrow> (int \<times> 'b) list \<Rightarrow> (int \<times> 'a \<times> 'b) list" where
  \<comment> \<open>\<open>pd.merge(left, right, on=key, how="inner")\<close>: the left order is kept, every matching
      right row gives one row\<close>
  "merge_inner left right =
     concat (map (\<lambda>(a, l). map (\<lambda>(b, r). (a, l, r)) (filter (\<lambda>(b, r). b = a) right)) left)"

definition shift1 :: "fnum list \<Rightarrow> fnum list" where
  \<comment> \<open>\<open>Series.shift(1)\<close>: every value moves one row down, the first row is NaN\<close>
  "shift1 xs = (if xs = [] then [] else NaN # butlast xs)"

definition roe_complete :: "roe_row \<Rightarrow> bool" where
  \<comment> \<open>the rows that \<open>dropna()\<close> keeps: no NaN in any column\<close>
  "roe_complete r \<longleftrightarrow>
     \<not> isna (Lucro_Liquido r) \<and> \<not> isna (PL_Controlador r) \<and> \<not> isna (PL_Inicial r) \<and> \<not> isna (ROE r)"

definition calcular_roe :: "(int \<times> fnum) list \<Rightarrow> (int \<times> fnum) list \<Rightarrow> roe_row list" where
  "calcular_roe df_lucro df_pl =
     (let df = merge_inner df_lucro df_pl;
          pl_inicial = shift1 (map (\<lambda>(a, l, p). p) df);
          rows = map (\<lambda>((a, l, p), p0).
                   \<lparr>Ano = a, Lucro_Liquido = l, PL_Controlador = p, PL_Inicial = p0,
                    ROE = fdiv l p0\<rparr>) (zip df pl_inicial)
      in filter roe_complete rows)"

section \<open>Cost of equity and spread: calcular_capm\<close>

record capm_row = roe_row +
  beta :: fnum
  Rf :: fnum
  Rm :: fnum
  Ke :: fnum
  spread_valor :: fnum

definition capm_of :: "fnum \<Rightarrow> roe_row \<Rightarrow> fnum \<Rightarrow> fnum \<Rightarrow> capm_row" where
  "capm_of b r rf rm =
     (let premio_risco = fsub rm rf;
          ke = fadd rf (fmul b premio_risco)
      in \<lparr>Ano = Ano r, Lucro_Liquido = Lucro_Liquido r, PL_Controlador = PL_Controlador r,
          PL_Inicial = PL_Inicial r, ROE = ROE r,
          beta = b, Rf = rf, Rm = rm, Ke = ke, spread_valor = fsub (ROE r) ke\<rparr>)"

definition calcular_capm ::
  "roe_row list \<Rightarrow> (int \<times> fnum) list \<Rightarrow> (int \<times> fnum) list \<Rightarrow> fnum \<Rightarrow> capm_row list" where
  "calcular_capm df_roe df_selic df_ibov b =
     (let by_ano = map (\<lambda>r. (Ano r, r)) df_roe;
          df = merge_inner (map (\<lambda>(a, r, rf). (a, (r, rf))) (merge_inner by_ano df_selic)) df_ibov
      in map (\<lambda>(a, (r, rf), rm). capm_of b r rf rm) df)"

section \<open>Disclosure records and the two extractors\<close>

record conta =
  CNPJ_CIA :: string
  DT_REFER :: date
  ORDEM_EXERC :: string
  CD_CONTA :: string
  DS_CONTA :: "string option"
  VL_CONTA :: "rat option"

text \<open>
  A row of a DFP table of the CVM.  The files are read as Latin-1, so a character is one
  byte here.  A description or a value can be empty in the file (\<open>None\<close>); a value that is
  present is a finite decimal, stated in thousands.  The files write the values with a
  decimal point, so \<open>VL_CONTA\<close> is a float column; a column of 64-bit integers, whose
  product by 1000 could wrap, is outside the model.  \<open>CD_CONTA\<close> is a column of text, as it
  is whenever a table holds a code with two dots.
\<close>

definition ULTIMO :: string where
  "ULTIMO = CHR 0xDA # ''LTIMO''"

definition LUCRO_PREJUIZO :: string where
  "LUCRO_PREJUIZO = ''Lucro/Preju'' @ [CHR 0xED] @ ''zo''"

definition to_lower :: "char \<Rightarrow> char" where
  "to_lower c =
     (let n = (of_char c :: nat)
      in if (65 \<le> n \<and> n \<le> 90) \<or> (192 \<le> n \<and> n \<le> 222 \<and> n \<noteq> 215)
         then char_of (n + 32) else c)"

fun is_prefix :: "string \<Rightarrow> string \<Rightarrow> bool" where
  "is_prefix [] s = True"
| "is_prefix (p # ps) [] = False"
| "is_prefix (p # ps) (c # cs) = (p = c \<and> is_prefix ps cs)"

fun is_infix :: "string \<Rightarrow> string \<Rightarrow> bool" where
  "is_infix pat [] = (pat = [])"
| "is_infix pat (c # cs) = (is_prefix pat (c # cs) \<or> is_infix pat cs)"

definition str_contains :: "string \<Rightarrow> string option \<Rightarrow> bool" where
  \<comment> \<open>\<open>Series.str.contains(pat, case=False, na=False)\<close> for a pattern of plain characters\<close>
  "str_contains pat d =
     (case d of None \<Rightarrow> False
      | Some s \<Rightarrow> is_infix (map to_lower pat) (map to_lower s))"

definition mil :: "rat option \<Rightarrow> rat option" where
  \<comment> \<open>\<open>VL_CONTA * 1_000\<close>\<close>
  "mil v = map_option (\<lambda>x. x * 1000) v"

definition sum_skipna :: "rat option list \<Rightarrow> fnum" where
  \<comment> \<open>the sum of a group: missing values are skipped, an empty sum is 0\<close>
  "sum_skipna vs = Fin (\<Sum>v\<leftarrow>vs. case v of None \<Rightarrow> 0 | Some x \<Rightarrow> x)"

definition conta_ano :: "conta \<Rightarrow> int" where
  "conta_ano r = dt_year (DT_REFER r)"

definition extrair_lucro :: "conta list \<Rightarrow> string \<Rightarrow> (int \<times> fnum) list" where
  "extrair_lucro dre cnpj =
     (let banco = filter (\<lambda>r. CNPJ_CIA r = cnpj) dre;
          df = filter (\<lambda>r. str_contains LUCRO_PREJUIZO (DS_CONTA r) \<and> ORDEM_EXERC r = ULTIMO) banco
      in map (\<lambda>a. (a, sum_skipna (map (\<lambda>r. mil (VL_CONTA r)) (filter (\<lambda>r. conta_ano r = a) df))))
           (group_keys (map conta_ano df)))"

definition pivot_cell :: "conta list \<Rightarrow> int \<Rightarrow> string \<Rightarrow> fnum" where
  \<comment> \<open>a cell of the pivot table: the sum of the group, NaN where the group has no row\<close>
  "pivot_cell df a code =
     (let g = filter (\<lambda>r. conta_ano r = a \<and> CD_CONTA r = code) df
      in if g = [] then NaN else sum_skipna (map (\<lambda>r. mil (VL_CONTA r)) g))"

definition pivot_get :: "conta list \<Rightarrow> string \<Rightarrow> int \<Rightarrow> fnum" where
  \<comment> \<open>\<open>pivot.get(code, pd.Series(0, index=pivot.index))\<close>: the default is taken only when
      the pivot table has no column for the code, that is when no row carries it\<close>
  "pivot_get df code a = (if code \<in> set (map CD_CONTA df) then pivot_cell df a code else Fin 0)"

definition extrair_pl :: "conta list \<Rightarrow> string \<Rightarrow> (int \<times> fnum) list" where
  "extrair_pl bpp cnpj =
     (let banco = filter (\<lambda>r. CNPJ_CIA r = cnpj) bpp;
          df = filter (\<lambda>r. CD_CONTA r \<in> set [''2.08'', ''2.08.09''] \<and> ORDEM_EXERC r = ULTIMO) banco
      in map (\<lambda>a. (a, fsub (pivot_get df ''2.08'' a) (pivot_get df ''2.08.09'' a)))
           (group_keys (map conta_ano df)))"

section \<open>The annual risk-free rate and the annual market return\<close>

datatype error = RuntimeError | KeyError | Raised string

definition prod_skipna :: "fnum list \<Rightarrow> fnum" where
  \<comment> \<open>the product of a group: NaN factors are skipped, an empty product is 1\<close>
  "prod_skipna xs = foldl fmul (Fin 1) (filter (\<lambda>x. \<not> isna x) xs)"

definition fator_diario :: "fnum \<Rightarrow> fnum" where
  "fator_diario valor = fadd (Fin 1) (fdiv valor (Fin 100))"

definition selic_anual :: "(date \<times> fnum) list \<Rightarrow> error + (int \<times> fnum) list" where
  \<comment> \<open>lines 224 to 232 of \<open>baixar_selic\<close>, on the points of all the blocks; a frame built from
      no point has no column \<open>data\<close>\<close>
  "selic_anual todos =
     (if todos = [] then Inl KeyError
      else Inr (map (\<lambda>a. (a, fsub (prod_skipna (map (\<lambda>(d, v). fator_diario v)
                                       (filter (\<lambda>(d, v). dt_year d = a) todos))) (Fin 1)))
                 (group_keys (coluna_ano todos))))"

definition janelas :: "int \<Rightarrow> int \<Rightarrow> (int \<times> int) list" where
  \<comment> \<open>\<open>range(ano_ini, ano_fim + 1, 10)\<close> with the last year of every block\<close>
  "janelas ano_ini ano_fim =
     (if ano_fim < ano_ini then []
      else map (\<lambda>k. (ano_ini + 10 * int k, min (ano_ini + 10 * int k + 9) ano_fim))
             [0 ..< nat ((ano_fim - ano_ini) div 10 + 1)])"

fun baixar_blocos ::
  "(int \<Rightarrow> int \<Rightarrow> error + (date \<times> fnum) list) \<Rightarrow> (int \<times> int) list \<Rightarrow> error + (date \<times> fnum) list" where
  "baixar_blocos bcb [] = Inr []"
| "baixar_blocos bcb ((inicio, fim_bloco) # js) =
     (case bcb inicio fim_bloco of
        Inl e \<Rightarrow> Inl e
      | Inr pts \<Rightarrow> (case baixar_blocos bcb js of Inl e \<Rightarrow> Inl e | Inr rest \<Rightarrow> Inr (pts @ rest)))"

definition baixar_selic ::
  "(int \<Rightarrow> int \<Rightarrow> error + (date \<times> fnum) list) \<Rightarrow> int \<Rightarrow> int \<Rightarrow> error + (int \<times> fnum) list" where
  "baixar_selic bcb ano_ini ano_fim =
     (case baixar_blocos bcb (janelas ano_ini ano_fim) of
        Inl e \<Rightarrow> Inl e
      | Inr todos \<Rightarrow> selic_anual todos)"

definition agg_first :: "fnum list \<Rightarrow> fnum" where
  \<comment> \<open>the groupby aggregation \<open>first\<close>: the first value of the group that is not NaN\<close>
  "agg_first xs = (case filter (\<lambda>x. \<not> isna x) xs of [] \<Rightarrow> NaN | x # _ \<Rightarrow> x)"

definition agg_last :: "fnum list \<Rightarrow> fnum" where
  "agg_last xs = (case rev (filter (\<lambda>x. \<not> isna x) xs) of [] \<Rightarrow> NaN | x # _ \<Rightarrow> x)"

definition precos_do_ano :: "(date \<times> fnum) list \<Rightarrow> int \<Rightarrow> fnum list" where
  "precos_do_ano ibov a = map snd (filter (\<lambda>(d, p). dt_year d = a) ibov)"

definition ibov_anual :: "(date \<times> fnum) list \<Rightarrow> (int \<times> fnum) list" where
  \<comment> \<open>lines 250 to 259, on the rows (date, adjusted close) of a download that has its columns\<close>
  "ibov_anual ibov =
     map (\<lambda>a. let preco_inicial = agg_first (precos_do_ano ibov a);
                  preco_final = agg_last (precos_do_ano ibov a)
              in (a, fsub (fdiv preco_final preco_inicial) (Fin 1)))
       (group_keys (coluna_ano ibov))"

definition baixar_ibov_anual :: "(date \<times> fnum) list option \<Rightarrow> error + (int \<times> fnum) list" where
  \<comment> \<open>a failed download is a frame without the column \<open>Adj Close\<close> (\<open>None\<close>): selecting it
      raises KeyError\<close>
  "baixar_ibov_anual download =
     (case download of None \<Rightarrow> Inl KeyError | Some ibov \<Rightarrow> Inr (ibov_anual ibov))"

section \<open>The beta estimator and the main run\<close>

record banco =
  nome :: string
  ticker :: string
  cnpj :: string

definition BANCOS :: "banco list" where
  "BANCOS =
     [\<lparr>nome = ''Ita'' @ [CHR 0xFA] @ '' Unibanco'', ticker = ''ITUB4.SA'', cnpj = ''60.872.504/0001-23''\<rparr>,
      \<lparr>nome = ''Bradesco'', ticker = ''BBDC4.SA'', cnpj = ''60.746.948/0001-12''\<rparr>,
      \<lparr>nome = ''Banco do Brasil'', ticker = ''BBAS3.SA'', cnpj = ''00.000.000/0001-91''\<rparr>,
      \<lparr>nome = ''Santander BR'', ticker = ''SANB11.SA'', cnpj = ''90.400.888/0001-42''\<rparr>]"

definition ANO_INICIAL :: int where
  "ANO_INICIAL = 2010"

definition ANO_FINAL :: int where
  "ANO_FINAL = 2024"

definition ANOS :: "int list" where
  "ANOS = [ANO_INICIAL .. ANO_FINAL]"

text \<open>
  What the run reads from outside: the DFP archive of a year (\<open>None\<close> when the download
  fails; otherwise the rows of the consolidated DRE and BPP tables, empty when the archive
  has no such table), the SELIC points of a block of years, the rows of the index (\<open>None\<close>
  when the download comes back without its columns), the aligned monthly returns (stock,
  index) of a ticker as they stand after \<open>dropna()\<close>, and the regression of the statistics
  library, which gives the slope or raises.
\<close>

record world =
  cvm :: "int \<Rightarrow> (conta list \<times> conta list) option"
  bcb :: "int \<Rightarrow> int \<Rightarrow> error + (date \<times> fnum) list"
  yf_ibov :: "(date \<times> fnum) list option"
  yf_ret :: "string \<Rightarrow> error + (fnum \<times> fnum) list"
  ols :: "(fnum \<times> fnum) list \<Rightarrow> error + fnum"

definition calcular_beta :: "world \<Rightarrow> string \<Rightarrow> error + fnum" where
  \<comment> \<open>the returns go to the regression as they are: their number is not looked at\<close>
  "calcular_beta w tk = (case yf_ret w tk of Inl e \<Rightarrow> Inl e | Inr ret \<Rightarrow> ols w ret)"

fun baixar_dados_cvm ::
  "(int \<Rightarrow> (conta list \<times> conta list) option) \<Rightarrow> int list \<Rightarrow> conta list \<times> conta list \<times> int list" where
  "baixar_dados_cvm src [] = ([], [], [])"
| "baixar_dados_cvm src (ano # anos) =
     (case baixar_dados_cvm src anos of
        (dre_total, bpp_total, anos_ok) \<Rightarrow>
          (case src ano of
             None \<Rightarrow> (dre_total, bpp_total, anos_ok)
           | Some (dre, bpp) \<Rightarrow> (dre @ dre_total, bpp @ bpp_total, ano # anos_ok)))"

type_synonym resultados = "(string \<times> capm_row list) list"

definition roe_do_banco :: "conta list \<Rightarrow> conta list \<Rightarrow> banco \<Rightarrow> roe_row list" where
  "roe_do_banco dre_total bpp_total b =
     calcular_roe (extrair_lucro dre_total (cnpj b)) (extrair_pl bpp_total (cnpj b))"

fun processar ::
  "world \<Rightarrow> conta list \<Rightarrow> conta list \<Rightarrow> (int \<times> fnum) list \<Rightarrow> (int \<times> fnum) list \<Rightarrow>
   banco list \<Rightarrow> resultados \<Rightarrow> error + resultados" where
  "processar w dre_total bpp_total df_selic df_ibov [] res = Inr res"
| "processar w dre_total bpp_total df_selic df_ibov (b # bs) res =
     (if dre_total = [] \<or> bpp_total = [] then Inl KeyError
      else let df_roe = roe_do_banco dre_total bpp_total b
           in if df_roe = [] then processar w dre_total bpp_total df_selic df_ibov bs res
              else (case calcular_beta w (ticker b) of
                      Inl e \<Rightarrow> Inl e
                    | Inr bt \<Rightarrow>
                        processar w dre_total bpp_total df_selic df_ibov bs
                          (AList.update (nome b) (calcular_capm df_roe df_selic df_ibov bt) res)))"

text \<open>
  The loop over the banks.  A table without any row is the frame \<open>pd.DataFrame()\<close>, which
  has no column: selecting \<open>CNPJ_CIA\<close> from it raises KeyError.  A bank whose ROE table is
  empty is passed over; the call of the estimator is not guarded.
\<close>

datatype saida = Planilha resultados | Erro_Nenhum_Banco

definition main_run :: "banco list \<Rightarrow> world \<Rightarrow> error + saida" where
  "main_run bancos w =
     (case baixar_dados_cvm (cvm w) ANOS of
        (dre_total, bpp_total, anos_baixados) \<Rightarrow>
          if anos_baixados = [] then Inl RuntimeError
          else (case baixar_selic (bcb w) ANO_INICIAL ANO_FINAL of
                  Inl e \<Rightarrow> Inl e
                | Inr df_selic \<Rightarrow>
                    (case baixar_ibov_anual (yf_ibov w) of
                       Inl e \<Rightarrow> Inl e
                     | Inr df_ibov \<Rightarrow>
                         (case processar w dre_total bpp_total df_selic df_ibov bancos [] of
                            Inl e \<Rightarrow> Inl e
                          | Inr res \<Rightarrow>
                              Inr (if res \<noteq> [] then Planilha res else Erro_Nenhum_Banco)))))"

definition main :: "world \<Rightarrow> error + saida" where
  "main w = main_run BANCOS w"

text \<open>
  The result of the script: \<open>Inl\<close> an exception that ends it, \<open>Inr (Planilha res)\<close> the call
  of \<open>criar_excel\<close> on the results, \<open>Inr Erro_Nenhum_Banco\<close> the last branch, which prints
  the line "[ERRO] Nenhum banco processado com sucesso." and lets the script end.
\<close>

section \<open>A concrete run\<close>

text \<open>
  One bank of the roster with disclosures for 2020 and 2021 (net income 100 and 120, total
  equity 1000 and 1100, in thousands; every balance sheet also has its share capital, the
  account 2.08.01), one SELIC point and two index prices in 2021.  The monthly returns of
  the ticker and the outcome of the regression are left open.
\<close>

definition exemplo_dre :: "int \<Rightarrow> rat \<Rightarrow> conta" where
  "exemplo_dre a v =
     \<lparr>CNPJ_CIA = ''60.746.948/0001-12'', DT_REFER = (a, 12, 31), ORDEM_EXERC = ULTIMO,
      CD_CONTA = ''3.11'', DS_CONTA = Some (LUCRO_PREJUIZO @ '' Consolidado''),
      VL_CONTA = Some v\<rparr>"

definition exemplo_bpp :: "int \<Rightarrow> rat \<Rightarrow> conta" where
  "exemplo_bpp a v =
     \<lparr>CNPJ_CIA = ''60.746.948/0001-12'', DT_REFER = (a, 12, 31), ORDEM_EXERC = ULTIMO,
      CD_CONTA = ''2.08'', DS_CONTA = Some ''Patrimonio Liquido Consolidado'',
      VL_CONTA = Some v\<rparr>"

definition exemplo_capital :: "int \<Rightarrow> conta" where
  "exemplo_capital a =
     \<lparr>CNPJ_CIA = ''60.746.948/0001-12'', DT_REFER = (a, 12, 31), ORDEM_EXERC = ULTIMO,
      CD_CONTA = ''2.08.01'', DS_CONTA = Some ''Capital Social Realizado'',
      VL_CONTA = Some 500\<rparr>"

definition exemplo_cvm :: "int \<Rightarrow> (conta list \<times> conta list) option" where
  "exemplo_cvm a =
     (if a = 2020 then Some ([exemplo_dre 2020 100], [exemplo_bpp 2020 1000, exemplo_capital 2020])
      else if a = 2021 then Some ([exemplo_dre 2021 120], [exemplo_bpp 2021 1100, exemplo_capital 2021])
      else None)"

definition exemplo_mundo :: "(fnum \<times> fnum) list \<Rightarrow> error + fnum \<Rightarrow> world" where
  "exemplo_mundo ret regressao =
     \<lparr>cvm = exemplo_cvm,
      bcb = (\<lambda>inicio fim_bloco. Inr (if inicio = 2020 then [((2021, 1, 4), Fin 1)] else [])),
      yf_ibov = Some [((2021, 1, 4), Fin 100), ((2021, 12, 30), Fin 110)],
      yf_ret = (\<lambda>tk. Inr ret),
      ols = (\<lambda>obs. regressao)\<rparr>"

section \<open>Facts about the float model and the frames\<close>

lemma isna_iff: "isna x \<longleftrightarrow> x = NaN"
  by (cases x) simp_all

lemma fgt_fsub_zero: "fgt (fsub x y) (Fin 0) = fgt x y"
  by (cases x; cases y) (simp_all add: fsub_def)

lemma calcular_capm_rows:
  "row \<in> set (calcular_capm df_roe df_selic df_ibov b) \<Longrightarrow>
   \<exists>r rf rm. r \<in> set df_roe \<and> (Ano r, rf) \<in> set df_selic \<and> (Ano r, rm) \<in> set df_ibov \<and>
     row = capm_of b r rf rm"
  by (auto simp add: calcular_capm_def merge_inner_def)


lemma set_group_keys: "set (group_keys ks) = set ks"
  by (simp add: group_keys_def)

lemma distinct_group_keys: "distinct (group_keys ks)"
  by (simp add: group_keys_def)

lemma group_keys_cong: "set ks = set ks' \<Longrightarrow> group_keys ks = group_keys ks'"
  unfolding group_keys_def
  by (rule sorted_distinct_set_unique) simp_all

lemma coluna_ano_member: "(d, v) \<in> set df \<Longrightarrow> dt_year d \<in> set (coluna_ano df)"
  by (force simp add: coluna_ano_def)

lemma map_of_tabulate:
  "map_of (map (\<lambda>a. (a, f a)) ks) a = (if a \<in> set ks then Some (f a) else None)"
  by (induction ks) simp_all

lemma filter_key_tabulate:
  "distinct ks \<Longrightarrow> a \<in> set ks \<Longrightarrow>
     filter (\<lambda>(k, x). k = a) (map (\<lambda>k. (k, f k)) ks) = [(a, f a)]"
  by (induction ks) (auto simp add: filter_empty_conv)

lemma foldl_fmul_replicate:
  "foldl fmul (Fin a) (replicate n (Fin c)) = Fin (a * c ^ n)"
  by (induction n arbitrary: a) simp_all

lemma prod_skipna_replicate: "prod_skipna (replicate n (Fin c)) = Fin (c ^ n)"
  using foldl_fmul_replicate [of 1 n c] by (simp add: prod_skipna_def)

lemma map_filter_const:
  "\<forall>x \<in> set xs. P x \<longrightarrow> f x = c \<Longrightarrow>
     map f (filter P xs) = replicate (length (filter P xs)) c"
  by (induction xs) simp_all

lemma fator_diario_percent: "fator_diario (Fin (100 * r)) = Fin (1 + r)"
  by (simp add: fator_diario_def)

lemma ibov_anual_lookup:
  "map_of (ibov_anual ibov) a =
     (if a \<in> set (coluna_ano ibov)
      then Some (fsub (fdiv (agg_last (precos_do_ano ibov a)) (agg_first (precos_do_ano ibov a))) (Fin 1))
      else None)"
  unfolding ibov_anual_def Let_def
  by (simp only: map_of_tabulate set_group_keys)

lemma baixar_dados_cvm_unavailable:
  "\<forall>a \<in> set anos. src a = None \<Longrightarrow> baixar_dados_cvm src anos = ([], [], [])"
  by (induction anos) simp_all

lemma processar_all_empty:
  "dre \<noteq> [] \<Longrightarrow> bpp \<noteq> [] \<Longrightarrow> \<forall>b \<in> set bs. roe_do_banco dre bpp b = [] \<Longrightarrow>
     processar w dre bpp df_selic df_ibov bs res = Inr res"
  by (induction bs) simp_all

lemma main_run_cases:
  "main_run bancos w = Inr out \<Longrightarrow> baixar_dados_cvm (cvm w) ANOS = (dre, bpp, ok) \<Longrightarrow>
     \<exists>df_selic df_ibov res.
       baixar_selic (bcb w) ANO_INICIAL ANO_FINAL = Inr df_selic \<and>
       baixar_ibov_anual (yf_ibov w) = Inr df_ibov \<and>
       processar w dre bpp df_selic df_ibov bancos [] = Inr res \<and>
       out = (if res \<noteq> [] then Planilha res else Erro_Nenhum_Banco)"
  by (auto simp add: main_run_def split: if_splits sum.splits)






lemma filter_not_isna: "filter (\<lambda>x. \<not> isna x) xs = filter (\<lambda>p. p \<noteq> NaN) xs"
  by (simp add: isna_iff)

lemma agg_first_hd:
  "agg_first xs = (if filter (\<lambda>p. p \<noteq> NaN) xs = [] then NaN else hd (filter (\<lambda>p. p \<noteq> NaN) xs))"
  unfolding agg_first_def filter_not_isna
  by (cases "filter (\<lambda>p. p \<noteq> NaN) xs") simp_all

lemma agg_last_last:
  "agg_last xs = (if filter (\<lambda>p. p \<noteq> NaN) xs = [] then NaN else last (filter (\<lambda>p. p \<noteq> NaN) xs))"
proof -
  have "(case rev ys of [] \<Rightarrow> NaN | x # _ \<Rightarrow> x) = (if ys = [] then NaN else last ys)"
    for ys :: "fnum list"
    by (cases ys rule: rev_cases) simp_all
  then show ?thesis
    by (simp only: agg_last_def filter_not_isna)
qed

lemma coluna_ano_iff:
  "a \<in> set (coluna_ano df) \<longleftrightarrow> filter (\<lambda>(d, p). dt_year d = a) df \<noteq> []"
  by (auto simp add: coluna_ano_def filter_empty_conv)

lemma filter_key_tabulate_none:
  "a \<notin> set ks \<Longrightarrow> filter (\<lambda>(k, x). k = a) (map (\<lambda>k. (k, f k)) ks) = []"
  by (induction ks) auto

lemma retorno_do_ano:
  "fsub (fdiv (agg_last (precos_do_ano ibov a)) (agg_first (precos_do_ano ibov a))) (Fin 1) =
     (if filter (\<lambda>p. p \<noteq> NaN) (map snd (filter (\<lambda>(d, p). dt_year d = a) ibov)) = [] then NaN
      else fsub (fdiv (last (filter (\<lambda>p. p \<noteq> NaN) (map snd (filter (\<lambda>(d, p). dt_year d = a) ibov))))
                      (hd (filter (\<lambda>p. p \<noteq> NaN) (map snd (filter (\<lambda>(d, p). dt_year d = a) ibov)))))
             (Fin 1))"
  by (simp add: agg_first_hd agg_last_last precos_do_ano_def fsub_def)

lemma ibov_anual_row:
  "filter (\<lambda>(k, x). k = a) (ibov_anual ibov) =
     (if filter (\<lambda>(d, p). dt_year d = a) ibov = [] then []
      else [(a, fsub (fdiv (agg_last (precos_do_ano ibov a)) (agg_first (precos_do_ano ibov a))) (Fin 1))])"
proof (cases "a \<in> set (group_keys (coluna_ano ibov))")
  case True
  then have "filter (\<lambda>(d, p). dt_year d = a) ibov \<noteq> []"
    by (simp add: set_group_keys coluna_ano_iff)
  moreover from distinct_group_keys True
  have "filter (\<lambda>(k, x). k = a)
          (map (\<lambda>a. (a, fsub (fdiv (agg_last (precos_do_ano ibov a)) (agg_first (precos_do_ano ibov a))) (Fin 1)))
             (group_keys (coluna_ano ibov))) =
        [(a, fsub (fdiv (agg_last (precos_do_ano ibov a)) (agg_first (precos_do_ano ibov a))) (Fin 1))]"
    by (rule filter_key_tabulate)
  ultimately show ?thesis
    by (simp add: ibov_anual_def Let_def)
next
  case False
  then have "filter (\<lambda>(d, p). dt_year d = a) ibov = []"
    by (simp add: set_group_keys coluna_ano_iff)
  moreover from False
  have "filter (\<lambda>(k, x). k = a)
          (map (\<lambda>a. (a, fsub (fdiv (agg_last (precos_do_ano ibov a)) (agg_first (precos_do_ano ibov a))) (Fin 1)))
             (group_keys (coluna_ano ibov))) = []"
    by (rule filter_key_tabulate_none)
  ultimately show ?thesis
    by (simp add: ibov_anual_def Let_def)
qed

lemma processar_other:
  "processar w dre bpp df_selic df_ibov bs res = Inr res' \<Longrightarrow> k \<notin> nome ` set bs \<Longrightarrow>
     map_of res' k = map_of res k"
proof (induction bs arbitrary: res)
  case Nil
  then show ?case by simp
next
  case (Cons b bs)
  from Cons.prems(2) have k: "k \<notin> nome ` set bs" and kb: "k \<noteq> nome b" by auto
  show ?case
  proof (cases "roe_do_banco dre bpp b = []")
    case True
    with Cons.prems(1) have "processar w dre bpp df_selic df_ibov bs res = Inr res'"
      by (simp split: if_splits)
    then show ?thesis using Cons.IH k by blast
  next
    case False
    with Cons.prems(1) obtain bt where
      "processar w dre bpp df_selic df_ibov bs
         (AList.update (nome b) (calcular_capm (roe_do_banco dre bpp b) df_selic df_ibov bt) res) = Inr res'"
      by (auto simp add: Let_def split: if_splits sum.splits)
    then have "map_of res' k = map_of (AList.update (nome b)
        (calcular_capm (roe_do_banco dre bpp b) df_selic df_ibov bt) res) k"
      using Cons.IH k by blast
    with kb show ?thesis by (simp add: update_conv')
  qed
qed

lemma processar_lookup:
  "processar w dre bpp df_selic df_ibov bs res = Inr res' \<Longrightarrow> distinct (map nome bs) \<Longrightarrow>
   b \<in> set bs \<Longrightarrow> roe_do_banco dre bpp b \<noteq> [] \<Longrightarrow>
     \<exists>bt. calcular_beta w (ticker b) = Inr bt \<and>
       map_of res' (nome b) = Some (calcular_capm (roe_do_banco dre bpp b) df_selic df_ibov bt)"
proof (induction bs arbitrary: res)
  case Nil
  then show ?case by simp
next
  case (Cons c bs)
  from Cons.prems(2) have d: "distinct (map nome bs)" and c: "nome c \<notin> nome ` set bs" by auto
  show ?case
  proof (cases "b = c")
    case True
    with Cons.prems obtain bt where bt: "calcular_beta w (ticker b) = Inr bt" and
      rest: "processar w dre bpp df_selic df_ibov bs
         (AList.update (nome b) (calcular_capm (roe_do_banco dre bpp b) df_selic df_ibov bt) res) = Inr res'"
      by (auto simp add: Let_def split: if_splits sum.splits)
    from c True have "nome b \<notin> nome ` set bs" by simp
    with rest have "map_of res' (nome b) = map_of (AList.update (nome b)
        (calcular_capm (roe_do_banco dre bpp b) df_selic df_ibov bt) res) (nome b)"
      by (rule processar_other)
    with bt show ?thesis by (simp add: update_conv')
  next
    case False
    with Cons.prems(3) have b: "b \<in> set bs" by simp
    from Cons.prems(1) obtain res0 where "processar w dre bpp df_selic df_ibov bs res0 = Inr res'"
      by (auto simp add: Let_def split: if_splits sum.splits)
    then show ?thesis using Cons.IH d b Cons.prems(4) by blast
  qed
qed

lemma processar_total:
  "dre \<noteq> [] \<Longrightarrow> bpp \<noteq> [] \<Longrightarrow>
   \<forall>b \<in> set bs. roe_do_banco dre bpp b \<noteq> [] \<longrightarrow> (\<exists>bt. calcular_beta w (ticker b) = Inr bt) \<Longrightarrow>
     \<exists>res'. processar w dre bpp df_selic df_ibov bs res = Inr res'"
proof (induction bs arbitrary: res)
  case Nil
  then show ?case by simp
next
  case (Cons b bs)
  then show ?case by (cases "roe_do_banco dre bpp b = []") (auto simp add: Let_def)
qed

lemma processar_keys_origin:
  "processar w dre bpp df_selic df_ibov bs res = Inr res' \<Longrightarrow> k \<in> fst ` set res' \<Longrightarrow>
     k \<in> fst ` set res \<or> (\<exists>b \<in> set bs. nome b = k \<and> roe_do_banco dre bpp b \<noteq> [])"
proof (induction bs arbitrary: res)
  case Nil
  then show ?case by simp
next
  case (Cons b bs)
  show ?case
  proof (cases "roe_do_banco dre bpp b = []")
    case True
    with Cons.prems(1) have "processar w dre bpp df_selic df_ibov bs res = Inr res'"
      by (simp split: if_splits)
    from Cons.IH [OF this Cons.prems(2)] show ?thesis by auto
  next
    case False
    with Cons.prems(1) obtain bt where
      "processar w dre bpp df_selic df_ibov bs
         (AList.update (nome b) (calcular_capm (roe_do_banco dre bpp b) df_selic df_ibov bt) res) = Inr res'"
      by (auto simp add: Let_def split: if_splits sum.splits)
    from Cons.IH [OF this Cons.prems(2)] False show ?thesis
      by (auto simp add: dom_update)
  qed
qed

lemma processar_keyerror:
  "bs \<noteq> [] \<Longrightarrow> dre = [] \<or> bpp = [] \<Longrightarrow> processar w dre bpp df_selic df_ibov bs res = Inl KeyError"
  by (cases bs) auto

lemma main_run_processar:
  "baixar_dados_cvm (cvm w) ANOS = (dre, bpp, ok) \<Longrightarrow> ok \<noteq> [] \<Longrightarrow>
   baixar_selic (bcb w) ANO_INICIAL ANO_FINAL = Inr df_selic \<Longrightarrow>
   baixar_ibov_anual (yf_ibov w) = Inr df_ibov \<Longrightarrow>
     main_run bancos w =
       (case processar w dre bpp df_selic df_ibov bancos [] of
          Inl e \<Rightarrow> Inl e
        | Inr res \<Rightarrow> Inr (if res \<noteq> [] then Planilha res else Erro_Nenhum_Banco))"
  by (simp add: main_run_def)

lemma main_run_valued:
  assumes cvm: "baixar_dados_cvm (cvm w) ANOS = (dre, bpp, ok)" and ok: "ok \<noteq> []"
    and selic: "baixar_selic (bcb w) ANO_INICIAL ANO_FINAL = Inr df_selic"
    and ibov: "baixar_ibov_anual (yf_ibov w) = Inr df_ibov"
    and rows: "dre \<noteq> []" "bpp \<noteq> []"
    and names: "distinct (map nome bancos)"
    and betas: "\<forall>c \<in> set bancos. roe_do_banco dre bpp c \<noteq> [] \<longrightarrow> (\<exists>bt. calcular_beta w (ticker c) = Inr bt)"
    and b: "b \<in> set bancos" and roe: "roe_do_banco dre bpp b \<noteq> []"
  shows "\<exists>res bt. main_run bancos w = Inr (Planilha res) \<and> calcular_beta w (ticker b) = Inr bt \<and>
           map_of res (nome b) = Some (calcular_capm (roe_do_banco dre bpp b) df_selic df_ibov bt)"
proof -
  from processar_total [OF rows betas] obtain res where
    p: "processar w dre bpp df_selic df_ibov bancos [] = Inr res" by blast
  from processar_lookup [OF p names b roe] obtain bt where
    bt: "calcular_beta w (ticker b) = Inr bt" and
    m: "map_of res (nome b) = Some (calcular_capm (roe_do_banco dre bpp b) df_selic df_ibov bt)"
    by blast
  from m have "res \<noteq> []" by auto
  with p have "main_run bancos w = Inr (Planilha res)"
    by (simp add: main_run_processar [OF cvm ok selic ibov])
  with bt m show ?thesis by blast
qed

section \<open>Return on equity\<close>

text \<open>
  C1.  The claim: every ROE row divides the net income of its year by the controlling
  equity of exactly the previous calendar year, and a year whose previous-year equity is
  missing has no row.  The code takes the equity of the previous row of the merged table.
  With income and equity for 2020 and 2022 only, it gives a row for 2022 that divides by
  the equity of 2020, although no equity of 2021 exists.
\<close>

theorem calcular_roe_gap_year:
  "calcular_roe [(2020, Fin 10), (2022, Fin 20)] [(2020, Fin 100), (2022, Fin 200)] =
     [\<lparr>Ano = 2022, Lucro_Liquido = Fin 20, PL_Controlador = Fin 200, PL_Inicial = Fin 100,
       ROE = Fin (1 / 5)\<rparr>]"
  by (simp add: calcular_roe_def merge_inner_def shift1_def roe_complete_def)

text \<open>
  C2.  The scenario of the specification: net income 100 and 120 for 2021 and 2022, equity
  1000, 1100 and 1200 for 2020 to 2022, beta 1.2, risk-free rate 5 percent and market return
  15 percent for 2022.  The ROE stage returns the row of 2022 only, with ROE 120/1100; the
  equity of 2020 is lost in the inner join, so 2021 has no row.  On that row the valuation
  stage gives Ke = 17 percent and the spread 120/1100 - 0.17 = -67/1100.
\<close>

theorem scenario_2021_2022:
  "calcular_roe [(2021, Fin 100), (2022, Fin 120)]
       [(2020, Fin 1000), (2021, Fin 1100), (2022, Fin 1200)] =
     [\<lparr>Ano = 2022, Lucro_Liquido = Fin 120, PL_Controlador = Fin 1200, PL_Inicial = Fin 1100,
       ROE = Fin (6 / 55)\<rparr>] \<and>
   calcular_capm
       [\<lparr>Ano = 2022, Lucro_Liquido = Fin 120, PL_Controlador = Fin 1200, PL_Inicial = Fin 1100,
         ROE = Fin (6 / 55)\<rparr>]
       [(2022, Fin (5 / 100))] [(2022, Fin (15 / 100))] (Fin (12 / 10)) =
     [\<lparr>Ano = 2022, Lucro_Liquido = Fin 120, PL_Controlador = Fin 1200, PL_Inicial = Fin 1100,
       ROE = Fin (6 / 55), beta = Fin (6 / 5), Rf = Fin (1 / 20), Rm = Fin (3 / 20),
       Ke = Fin (17 / 100), spread_valor = Fin (- (67 / 1100))\<rparr>]"
  by (simp add: calcular_roe_def merge_inner_def shift1_def roe_complete_def
      calcular_capm_def capm_of_def fsub_def)




section \<open>Controlling equity\<close>

text \<open>
  C4.  The claim: where a year has a total-equity record and no record of non-controlling
  interest, the controlling equity is the total equity.  The default of zero is taken only
  when no year at all has such a record.  With the records 2.08 = 1000 and 2.08.09 = 100
  for 2020 and 2.08 = 1100 alone for 2021, the year 2021 gets NaN instead of 1100000.
\<close>

theorem extrair_pl_missing_minority_year:
  "extrair_pl
     [\<lparr>CNPJ_CIA = ''60.746.948/0001-12'', DT_REFER = (2020, 12, 31), ORDEM_EXERC = ULTIMO,
       CD_CONTA = ''2.08'', DS_CONTA = None, VL_CONTA = Some 1000\<rparr>,
      \<lparr>CNPJ_CIA = ''60.746.948/0001-12'', DT_REFER = (2020, 12, 31), ORDEM_EXERC = ULTIMO,
       CD_CONTA = ''2.08.09'', DS_CONTA = None, VL_CONTA = Some 100\<rparr>,
      \<lparr>CNPJ_CIA = ''60.746.948/0001-12'', DT_REFER = (2021, 12, 31), ORDEM_EXERC = ULTIMO,
       CD_CONTA = ''2.08'', DS_CONTA = None, VL_CONTA = Some 1100\<rparr>]
     ''60.746.948/0001-12'' =
   [(2020, Fin 900000), (2021, NaN)]"
  by code_simp

section \<open>Cost of equity and spread\<close>

text \<open>
  C3.  Every row of the valuation table satisfies Ke = Rf + beta * (Rm - Rf) with the beta
  given to the calculator, its spread is ROE - Ke, and the spread is greater than zero
  exactly when the ROE is greater than Ke (with the comparison of floats, also for
  infinities and NaN).
\<close>

theorem capm_row_identities:
  "\<forall>row \<in> set (calcular_capm df_roe df_selic df_ibov b).
     Ke row = fadd (Rf row) (fmul b (fsub (Rm row) (Rf row))) \<and>
     beta row = b \<and>
     spread_valor row = fsub (ROE row) (Ke row) \<and>
     (fgt (spread_valor row) (Fin 0) \<longleftrightarrow> fgt (ROE row) (Ke row))"
proof
  fix row assume "row \<in> set (calcular_capm df_roe df_selic df_ibov b)"
  then obtain r rf rm where row: "row = capm_of b r rf rm"
    using calcular_capm_rows by blast
  show "Ke row = fadd (Rf row) (fmul b (fsub (Rm row) (Rf row))) \<and>
     beta row = b \<and>
     spread_valor row = fsub (ROE row) (Ke row) \<and>
     (fgt (spread_valor row) (Fin 0) \<longleftrightarrow> fgt (ROE row) (Ke row))"
    unfolding row by (simp add: capm_of_def Let_def fgt_fsub_zero)
qed

theorem capm_row_identities_witness:
  "\<lparr>Ano = 2022, Lucro_Liquido = Fin 120, PL_Controlador = Fin 1200, PL_Inicial = Fin 1100,
     ROE = Fin (6 / 55), beta = Fin (6 / 5), Rf = Fin (1 / 20), Rm = Fin (3 / 20),
     Ke = Fin (17 / 100), spread_valor = Fin (- (67 / 1100))\<rparr>
     \<in> set (calcular_capm
         [\<lparr>Ano = 2022, Lucro_Liquido = Fin 120, PL_Controlador = Fin 1200, PL_Inicial = Fin 1100,
           ROE = Fin (6 / 55)\<rparr>]
         [(2022, Fin (5 / 100))] [(2022, Fin (15 / 100))] (Fin (12 / 10))) \<and>
   Fin (17 / 100) = fadd (Fin (1 / 20)) (fmul (Fin (12 / 10)) (fsub (Fin (3 / 20)) (Fin (1 / 20)))) \<and>
   Fin (- (67 / 1100)) = fsub (Fin (6 / 55)) (Fin (17 / 100)) \<and>
   fgt (Fin (- (67 / 1100))) (Fin 0) = fgt (Fin (6 / 55)) (Fin (17 / 100))"
proof -
  let ?row = "\<lparr>Ano = 2022, Lucro_Liquido = Fin 120, PL_Controlador = Fin 1200, PL_Inicial = Fin 1100,
     ROE = Fin (6 / 55), beta = Fin (6 / 5), Rf = Fin (1 / 20), Rm = Fin (3 / 20),
     Ke = Fin (17 / 100), spread_valor = Fin (- (67 / 1100))\<rparr>"
  let ?out = "calcular_capm
         [\<lparr>Ano = 2022, Lucro_Liquido = Fin 120, PL_Controlador = Fin 1200, PL_Inicial = Fin 1100,
           ROE = Fin (6 / 55)\<rparr>]
         [(2022, Fin (5 / 100))] [(2022, Fin (15 / 100))] (Fin (12 / 10))"
  have m: "?row \<in> set ?out"
    by (simp add: calcular_capm_def merge_inner_def capm_of_def fsub_def)
  with capm_row_identities have
    "Ke ?row = fadd (Rf ?row) (fmul (Fin (12 / 10)) (fsub (Rm ?row) (Rf ?row))) \<and>
     beta ?row = Fin (12 / 10) \<and>
     spread_valor ?row = fsub (ROE ?row) (Ke ?row) \<and>
     (fgt (spread_valor ?row) (Fin 0) \<longleftrightarrow> fgt (ROE ?row) (Ke ?row))"
    by blast
  with m show ?thesis
    by (simp add: fsub_def)
qed

section \<open>The annual risk-free rate\<close>

text \<open>
  C8.  When every point of the year Y carries the same daily rate, given as the percentage
  100 * r, and the year has exactly n points (n > 0), the annualizer returns one row for Y,
  with the rate (1 + r) ^ n - 1.  The points of other years are arbitrary.
\<close>

theorem selic_anual_constant_rate:
  assumes same: "\<forall>(d, v) \<in> set todos. dt_year d = Y \<longrightarrow> v = Fin (100 * r)"
    and days: "length (filter (\<lambda>(d, v). dt_year d = Y) todos) = n"
    and pos: "0 < n"
  shows "\<exists>tab. selic_anual todos = Inr tab \<and>
           filter (\<lambda>(a, x). a = Y) tab = [(Y, Fin ((1 + r) ^ n - 1))]"
proof -
  let ?grp = "filter (\<lambda>(d, v). dt_year d = Y) todos"
  let ?keys = "group_keys (coluna_ano todos)"
  let ?f = "\<lambda>a. fsub (prod_skipna (map (\<lambda>(d, v). fator_diario v)
                        (filter (\<lambda>(d, v). dt_year d = a) todos))) (Fin 1)"
  from days pos have grp: "?grp \<noteq> []" by auto
  then obtain d v where "(d, v) \<in> set ?grp" by (cases ?grp) auto
  then have pt: "(d, v) \<in> set todos" and "dt_year d = Y" by auto
  then have Y: "Y \<in> set ?keys"
    using coluna_ano_member [OF pt] by (simp add: set_group_keys)
  from pt have ne: "todos \<noteq> []" by auto
  have "map (\<lambda>(d, v). fator_diario v) ?grp = replicate (length ?grp) (Fin (1 + r))"
    using same by (intro map_filter_const) (auto simp add: fator_diario_percent)
  then have "?f Y = Fin ((1 + r) ^ n - 1)"
    by (simp add: days prod_skipna_replicate fsub_def)
  moreover have "filter (\<lambda>(a, x). a = Y) (map (\<lambda>a. (a, ?f a)) ?keys) = [(Y, ?f Y)]"
    using distinct_group_keys Y by (rule filter_key_tabulate)
  ultimately show ?thesis
    using ne by (simp add: selic_anual_def)
qed

theorem selic_anual_constant_rate_witness:
  "\<exists>tab. selic_anual [((2023, 1, 2), Fin (100 * (1 / 10))), ((2023, 1, 3), Fin (100 * (1 / 10))),
                       ((2024, 1, 2), Fin 7)] = Inr tab \<and>
         filter (\<lambda>(a, x). a = 2023) tab = [(2023, Fin (21 / 100))]"
  using selic_anual_constant_rate [of
      "[((2023, 1, 2), Fin (100 * (1 / 10))), ((2023, 1, 3), Fin (100 * (1 / 10))),
        ((2024, 1, 2), Fin 7)]" 2023 "1 / 10" 2]
  by (simp add: dt_year_def power2_eq_square)

section \<open>The annual market return\<close>

text \<open>
  C9.  The observed prices of a year are the prices of its rows that are not NaN, in the
  order of the series.  For a series that has its columns the table has exactly one row
  for every year with a row in the series and none for any other year, in ascending order
  of the years; the return of the year is the last observed price over the first observed
  price, minus one (NaN when the year has no observed price), which for finite prices p1
  and p2 with p1 other than zero is p2 / p1 - 1.  A second series with rows in the same
  years and the same first and last observed price in every year gives the same table,
  whatever lies between.
\<close>

theorem ibov_anual_first_last:
  fixes ibov ibov' :: "(date \<times> fnum) list"
  defines "obs \<equiv> \<lambda>(s :: (date \<times> fnum) list) a.
             filter (\<lambda>p. p \<noteq> NaN) (map snd (filter (\<lambda>(d, p). dt_year d = a) s))"
  shows "\<exists>tab. baixar_ibov_anual (Some ibov) = Inr tab \<and>
     (\<forall>a. filter (\<lambda>(k, x). k = a) tab =
        (if filter (\<lambda>(d, p). dt_year d = a) ibov = [] then []
         else [(a, if obs ibov a = [] then NaN
                   else fsub (fdiv (last (obs ibov a)) (hd (obs ibov a))) (Fin 1))])) \<and>
     (\<forall>a p1 p2. obs ibov a \<noteq> [] \<and> hd (obs ibov a) = Fin p1 \<and> last (obs ibov a) = Fin p2 \<and> p1 \<noteq> 0 \<longrightarrow>
        filter (\<lambda>(k, x). k = a) tab = [(a, Fin (p2 / p1 - 1))]) \<and>
     sorted (map fst tab) \<and> distinct (map fst tab) \<and>
     ((\<forall>a. (filter (\<lambda>(d, p). dt_year d = a) ibov = [] \<longleftrightarrow> filter (\<lambda>(d, p). dt_year d = a) ibov' = []) \<and>
           (obs ibov a = [] \<longleftrightarrow> obs ibov' a = []) \<and>
           hd (obs ibov a) = hd (obs ibov' a) \<and> last (obs ibov a) = last (obs ibov' a))
       \<longrightarrow> baixar_ibov_anual (Some ibov') = Inr tab)"
proof (intro exI conjI allI impI)
  show "baixar_ibov_anual (Some ibov) = Inr (ibov_anual ibov)"
    by (simp add: baixar_ibov_anual_def)
next
  fix a
  show "filter (\<lambda>(k, x). k = a) (ibov_anual ibov) =
        (if filter (\<lambda>(d, p). dt_year d = a) ibov = [] then []
         else [(a, if obs ibov a = [] then NaN
                   else fsub (fdiv (last (obs ibov a)) (hd (obs ibov a))) (Fin 1))])"
    unfolding obs_def ibov_anual_row retorno_do_ano ..
next
  fix a p1 p2
  assume h: "obs ibov a \<noteq> [] \<and> hd (obs ibov a) = Fin p1 \<and> last (obs ibov a) = Fin p2 \<and> p1 \<noteq> 0"
  then have ne: "filter (\<lambda>(d, p). dt_year d = a) ibov \<noteq> []"
    by (auto simp add: obs_def)
  have "fsub (fdiv (agg_last (precos_do_ano ibov a)) (agg_first (precos_do_ano ibov a))) (Fin 1) =
        fsub (fdiv (last (obs ibov a)) (hd (obs ibov a))) (Fin 1)"
    using h unfolding obs_def retorno_do_ano by simp
  also have "\<dots> = Fin (p2 / p1 - 1)"
    using h by (simp add: fsub_def)
  finally show "filter (\<lambda>(k, x). k = a) (ibov_anual ibov) = [(a, Fin (p2 / p1 - 1))]"
    using ne by (simp add: ibov_anual_row)
next
  have keys: "map fst (ibov_anual ibov) = group_keys (coluna_ano ibov)"
    by (simp add: ibov_anual_def Let_def comp_def)
  show "sorted (map fst (ibov_anual ibov))"
    unfolding keys by (simp add: group_keys_def)
  show "distinct (map fst (ibov_anual ibov))"
    unfolding keys by (rule distinct_group_keys)
next
  assume h: "\<forall>a. (filter (\<lambda>(d, p). dt_year d = a) ibov = [] \<longleftrightarrow> filter (\<lambda>(d, p). dt_year d = a) ibov' = []) \<and>
           (obs ibov a = [] \<longleftrightarrow> obs ibov' a = []) \<and>
           hd (obs ibov a) = hd (obs ibov' a) \<and> last (obs ibov a) = last (obs ibov' a)"
  then have "set (coluna_ano ibov') = set (coluna_ano ibov)"
    by (auto simp add: coluna_ano_iff)
  then have keys: "group_keys (coluna_ano ibov') = group_keys (coluna_ano ibov)"
    by (rule group_keys_cong)
  have "fsub (fdiv (agg_last (precos_do_ano ibov' a)) (agg_first (precos_do_ano ibov' a))) (Fin 1) =
        fsub (fdiv (agg_last (precos_do_ano ibov a)) (agg_first (precos_do_ano ibov a))) (Fin 1)" for a
    using h [rule_format, of a] unfolding obs_def retorno_do_ano by simp
  then have "ibov_anual ibov' = ibov_anual ibov"
    by (simp add: ibov_anual_def Let_def keys)
  then show "baixar_ibov_anual (Some ibov') = Inr (ibov_anual ibov)"
    by (simp add: baixar_ibov_anual_def)
qed

theorem ibov_anual_first_last_witness:
  "baixar_ibov_anual (Some [((2020, 1, 2), NaN), ((2020, 1, 3), Fin 100), ((2020, 6, 1), Fin 40),
       ((2020, 12, 30), Fin 110), ((2021, 1, 4), Fin 200), ((2021, 6, 1), Fin 999),
       ((2021, 12, 30), Fin 100)]) =
     Inr [(2020, Fin (1 / 10)), (2021, Fin (- 1 / 2))] \<and>
   baixar_ibov_anual (Some [((2020, 1, 3), Fin 100), ((2020, 12, 30), Fin 110),
       ((2021, 1, 4), Fin 200), ((2021, 12, 30), Fin 100)]) =
     Inr [(2020, Fin (1 / 10)), (2021, Fin (- 1 / 2))]"
  using ibov_anual_first_last [of
      "[((2020, 1, 2), NaN), ((2020, 1, 3), Fin 100), ((2020, 6, 1), Fin 40),
        ((2020, 12, 30), Fin 110), ((2021, 1, 4), Fin 200), ((2021, 6, 1), Fin 999),
        ((2021, 12, 30), Fin 100)]"
      "[((2020, 1, 3), Fin 100), ((2020, 12, 30), Fin 110),
        ((2021, 1, 4), Fin 200), ((2021, 12, 30), Fin 100)]"]
  by (simp add: baixar_ibov_anual_def ibov_anual_def group_keys_def coluna_ano_def dt_year_def
      precos_do_ano_def agg_first_def agg_last_def fsub_def)

text \<open>
  C10.  The claim: a year with exactly one price point has the return 0.  This holds when
  that price is a finite number other than zero.  A single price of zero gives 0/0, and
  the return of the year is NaN, as the second theorem shows.
\<close>

theorem ibov_single_point_year:
  assumes one: "filter (\<lambda>(d, p). dt_year d = a) ibov = [(d0, Fin p0)]"
    and nz: "p0 \<noteq> 0"
  shows "\<exists>tab. baixar_ibov_anual (Some ibov) = Inr tab \<and> map_of tab a = Some (Fin 0)"
proof -
  have "(d0, Fin p0) \<in> set (filter (\<lambda>(d, p). dt_year d = a) ibov)"
    by (simp add: one)
  then have m: "(d0, Fin p0) \<in> set ibov" and y: "dt_year d0 = a" by auto
  have a: "a \<in> set (coluna_ano ibov)"
    using coluna_ano_member [OF m] y by simp
  have "precos_do_ano ibov a = [Fin p0]"
    by (simp add: precos_do_ano_def one)
  then have "map_of (ibov_anual ibov) a = Some (Fin 0)"
    using a nz by (simp add: ibov_anual_lookup agg_first_def agg_last_def fsub_def)
  then show ?thesis
    by (simp add: baixar_ibov_anual_def)
qed

theorem ibov_single_point_year_witness:
  "filter (\<lambda>(d, p). dt_year d = 2021) [((2020, 12, 30), Fin 90), ((2021, 1, 4), Fin 100)]
      = [((2021, 1, 4), Fin 100)] \<and> (100 :: rat) \<noteq> 0 \<and>
   (\<exists>tab. baixar_ibov_anual (Some [((2020, 12, 30), Fin 90), ((2021, 1, 4), Fin 100)]) = Inr tab \<and>
      map_of tab 2021 = Some (Fin 0))"
  using ibov_single_point_year [of 2021 "[((2020, 12, 30), Fin 90), ((2021, 1, 4), Fin 100)]" "(2021, 1, 4)" 100]
  by (simp add: dt_year_def)

theorem ibov_single_zero_price:
  "baixar_ibov_anual (Some [((2020, 1, 2), Fin 0)]) = Inr [(2020, NaN)]"
  by (simp add: baixar_ibov_anual_def ibov_anual_def group_keys_def coluna_ano_def dt_year_def
      precos_do_ano_def agg_first_def agg_last_def inf_of_sign_def fsub_def)

section \<open>The main run\<close>

text \<open>
  C5.  The claim: an entity whose aligned monthly returns have fewer than 2 observations
  is skipped, without an exception, and the run goes on.  The estimator does not look at
  the number of observations and the loop does not guard the call.  What holds for a bank
  of a roster of distinct names whose ROE table is not empty, whatever the number of its
  observations: whenever the run ends without an exception, the regression has returned
  a value and the results hold, under the name of the bank, the valuation table computed
  from its ROE table, the annual rates of the run and that value as beta; when the
  regression raises, the run ends with an exception; when the downloads succeed, the
  disclosure tables have rows and the regression returns for every bank with a ROE row,
  the run does end with the report; and every name in the results is a bank with a ROE
  row, so only a bank whose ROE table is empty is passed over.
\<close>

theorem beta_failure_not_absorbed:
  assumes cvm: "baixar_dados_cvm (cvm w) ANOS = (dre_total, bpp_total, anos_baixados)"
    and b: "b \<in> set bancos"
    and roe: "roe_do_banco dre_total bpp_total b \<noteq> []"
    and ret: "yf_ret w (ticker b) = Inr ret"
    and names: "distinct (map nome bancos)"
  shows "(\<forall>out. main_run bancos w = Inr out \<longrightarrow>
            (\<exists>res bt df_selic df_ibov. out = Planilha res \<and> ols w ret = Inr bt \<and>
               baixar_selic (bcb w) ANO_INICIAL ANO_FINAL = Inr df_selic \<and>
               baixar_ibov_anual (yf_ibov w) = Inr df_ibov \<and>
               map_of res (nome b) =
                 Some (calcular_capm (roe_do_banco dre_total bpp_total b) df_selic df_ibov bt)))
         \<and> (\<forall>e. ols w ret = Inl e \<longrightarrow> (\<exists>e'. main_run bancos w = Inl e'))
         \<and> (\<forall>df_selic df_ibov.
              anos_baixados \<noteq> [] \<and> dre_total \<noteq> [] \<and> bpp_total \<noteq> [] \<and>
              baixar_selic (bcb w) ANO_INICIAL ANO_FINAL = Inr df_selic \<and>
              baixar_ibov_anual (yf_ibov w) = Inr df_ibov \<and>
              (\<forall>c \<in> set bancos. roe_do_banco dre_total bpp_total c \<noteq> [] \<longrightarrow>
                 (\<exists>bt. calcular_beta w (ticker c) = Inr bt))
              \<longrightarrow> (\<exists>res bt. main_run bancos w = Inr (Planilha res) \<and> ols w ret = Inr bt \<and>
                     map_of res (nome b) =
                       Some (calcular_capm (roe_do_banco dre_total bpp_total b) df_selic df_ibov bt)))
         \<and> (\<forall>res k. main_run bancos w = Inr (Planilha res) \<and> k \<in> fst ` set res \<longrightarrow>
              (\<exists>c \<in> set bancos. nome c = k \<and> roe_do_banco dre_total bpp_total c \<noteq> []))"
proof -
  have beta: "calcular_beta w (ticker b) = ols w ret"
    by (simp add: calcular_beta_def ret)
  have compl: "\<exists>res bt df_selic df_ibov. out = Planilha res \<and> ols w ret = Inr bt \<and>
               baixar_selic (bcb w) ANO_INICIAL ANO_FINAL = Inr df_selic \<and>
               baixar_ibov_anual (yf_ibov w) = Inr df_ibov \<and>
               map_of res (nome b) =
                 Some (calcular_capm (roe_do_banco dre_total bpp_total b) df_selic df_ibov bt)"
    if "main_run bancos w = Inr out" for out
  proof -
    from main_run_cases [OF that cvm] obtain df_selic df_ibov res where
      s: "baixar_selic (bcb w) ANO_INICIAL ANO_FINAL = Inr df_selic"
      and i: "baixar_ibov_anual (yf_ibov w) = Inr df_ibov"
      and p: "processar w dre_total bpp_total df_selic df_ibov bancos [] = Inr res"
      and out: "out = (if res \<noteq> [] then Planilha res else Erro_Nenhum_Banco)" by blast
    from processar_lookup [OF p names b roe] obtain bt where
      bt: "ols w ret = Inr bt" and
      m: "map_of res (nome b) =
            Some (calcular_capm (roe_do_banco dre_total bpp_total b) df_selic df_ibov bt)"
      by (auto simp add: beta)
    from m have "res \<noteq> []" by auto
    with out s i bt m show ?thesis by auto
  qed
  have raises: "\<exists>e'. main_run bancos w = Inl e'" if "ols w ret = Inl e" for e
  proof (cases "main_run bancos w")
    case (Inl e')
    then show ?thesis by blast
  next
    case (Inr out)
    with compl that show ?thesis by fastforce
  qed
  have live: "\<exists>res bt. main_run bancos w = Inr (Planilha res) \<and> ols w ret = Inr bt \<and>
                     map_of res (nome b) =
                       Some (calcular_capm (roe_do_banco dre_total bpp_total b) df_selic df_ibov bt)"
    if "anos_baixados \<noteq> [] \<and> dre_total \<noteq> [] \<and> bpp_total \<noteq> [] \<and>
        baixar_selic (bcb w) ANO_INICIAL ANO_FINAL = Inr df_selic \<and>
        baixar_ibov_anual (yf_ibov w) = Inr df_ibov \<and>
        (\<forall>c \<in> set bancos. roe_do_banco dre_total bpp_total c \<noteq> [] \<longrightarrow>
           (\<exists>bt. calcular_beta w (ticker c) = Inr bt))" for df_selic df_ibov
    using main_run_valued [OF cvm _ _ _ _ _ names _ b roe, of df_selic df_ibov] that
    by (simp add: beta)
  have only: "\<exists>c \<in> set bancos. nome c = k \<and> roe_do_banco dre_total bpp_total c \<noteq> []"
    if "main_run bancos w = Inr (Planilha res) \<and> k \<in> fst ` set res" for res k
  proof -
    from that have run: "main_run bancos w = Inr (Planilha res)" and k: "k \<in> fst ` set res"
      by simp_all
    from main_run_cases [OF run cvm] obtain df_selic df_ibov res0 where
      p: "processar w dre_total bpp_total df_selic df_ibov bancos [] = Inr res0"
      and out: "Planilha res = (if res0 \<noteq> [] then Planilha res0 else Erro_Nenhum_Banco)" by blast
    from out have "res0 = res" by (simp split: if_splits)
    with p k processar_keys_origin [of w dre_total bpp_total df_selic df_ibov bancos "[]" res k]
    show ?thesis by simp
  qed
  from compl raises live only show ?thesis by blast
qed

theorem beta_failure_not_absorbed_witness:
  "length [(Fin (1 / 10), Fin (1 / 5))] < (2 :: nat) \<and>
   (\<exists>res. main_run BANCOS (exemplo_mundo [(Fin (1 / 10), Fin (1 / 5))] (Inr (Fin (1 / 2)))) =
            Inr (Planilha res) \<and>
          map_of res ''Bradesco'' =
            Some [\<lparr>Ano = 2021, Lucro_Liquido = Fin 120000, PL_Controlador = Fin 1100000,
                   PL_Inicial = Fin 1000000, ROE = Fin (3 / 25), beta = Fin (1 / 2),
                   Rf = Fin (1 / 100), Rm = Fin (1 / 10), Ke = Fin (11 / 200),
                   spread_valor = Fin (13 / 200)\<rparr>]) \<and>
   (\<exists>e'. main_run BANCOS (exemplo_mundo [] (Inl (Raised ''ValueError''))) = Inl e')"
proof -
  let ?v = "exemplo_mundo [(Fin (1 / 10), Fin (1 / 5))] (Inr (Fin (1 / 2)))"
  let ?w = "exemplo_mundo [] (Inl (Raised ''ValueError''))"
  let ?b = "\<lparr>nome = ''Bradesco'', ticker = ''BBDC4.SA'', cnpj = ''60.746.948/0001-12''\<rparr>"
  let ?dre = "[exemplo_dre 2020 100, exemplo_dre 2021 120]"
  let ?bpp = "[exemplo_bpp 2020 1000, exemplo_capital 2020, exemplo_bpp 2021 1100, exemplo_capital 2021]"
  let ?roe = "[\<lparr>Ano = 2021, Lucro_Liquido = Fin 120000, PL_Controlador = Fin 1100000,
                 PL_Inicial = Fin 1000000, ROE = Fin (3 / 25)\<rparr>]"
  have cvm_v: "baixar_dados_cvm (cvm ?v) ANOS = (?dre, ?bpp, [2020, 2021])"
    by code_simp
  have cvm_w: "baixar_dados_cvm (cvm ?w) ANOS = (?dre, ?bpp, [2020, 2021])"
    by code_simp
  have b: "?b \<in> set BANCOS"
    by (simp add: BANCOS_def)
  have roe: "roe_do_banco ?dre ?bpp ?b = ?roe"
    by code_simp
  then have ne: "roe_do_banco ?dre ?bpp ?b \<noteq> []"
    by simp
  have ret_v: "yf_ret ?v (ticker ?b) = Inr [(Fin (1 / 10), Fin (1 / 5))]"
    by (simp add: exemplo_mundo_def)
  have ret_w: "yf_ret ?w (ticker ?b) = Inr []"
    by (simp add: exemplo_mundo_def)
  have names: "distinct (map nome BANCOS)"
    by code_simp
  have selic: "baixar_selic (bcb ?v) ANO_INICIAL ANO_FINAL = Inr [(2021, Fin (1 / 100))]"
    by code_simp
  have ibov: "baixar_ibov_anual (yf_ibov ?v) = Inr [(2021, Fin (1 / 10))]"
    by code_simp
  have betas: "\<forall>c \<in> set BANCOS. roe_do_banco ?dre ?bpp c \<noteq> [] \<longrightarrow>
      (\<exists>bt. calcular_beta ?v (ticker c) = Inr bt)"
    by (simp add: calcular_beta_def exemplo_mundo_def)
  have capm: "calcular_capm ?roe [(2021, Fin (1 / 100))] [(2021, Fin (1 / 10))] (Fin (1 / 2)) =
      [\<lparr>Ano = 2021, Lucro_Liquido = Fin 120000, PL_Controlador = Fin 1100000,
        PL_Inicial = Fin 1000000, ROE = Fin (3 / 25), beta = Fin (1 / 2),
        Rf = Fin (1 / 100), Rm = Fin (1 / 10), Ke = Fin (11 / 200),
        spread_valor = Fin (13 / 200)\<rparr>]"
    by code_simp
  from beta_failure_not_absorbed [OF cvm_v b ne ret_v names] selic ibov betas
  have "\<exists>res bt. main_run BANCOS ?v = Inr (Planilha res) \<and> ols ?v [(Fin (1 / 10), Fin (1 / 5))] = Inr bt \<and>
      map_of res (nome ?b) =
        Some (calcular_capm (roe_do_banco ?dre ?bpp ?b) [(2021, Fin (1 / 100))] [(2021, Fin (1 / 10))] bt)"
    by blast
  then have 1: "\<exists>res. main_run BANCOS ?v = Inr (Planilha res) \<and>
      map_of res ''Bradesco'' =
        Some (calcular_capm ?roe [(2021, Fin (1 / 100))] [(2021, Fin (1 / 10))] (Fin (1 / 2)))"
    unfolding roe by (auto simp add: exemplo_mundo_def)
  from beta_failure_not_absorbed [OF cvm_w b ne ret_w names]
  have 2: "\<exists>e'. main_run BANCOS ?w = Inl e'"
    by (simp add: exemplo_mundo_def)
  from 1 2 show ?thesis
    unfolding capm by simp
qed

text \<open>
  The two outcomes on the concrete run: with no observation the regression raises, and
  the run ends with that exception; with the one observation (0.1, 0.2) the regression
  returns 0.1 / 0.2 = 0.5, and the bank is valued with beta = 0.5.
\<close>

theorem beta_run_outcomes:
  "main (exemplo_mundo [] (Inl (Raised ''ValueError''))) = Inl (Raised ''ValueError'') \<and>
   main (exemplo_mundo [(Fin (1 / 10), Fin (1 / 5))] (Inr (Fin (1 / 2)))) =
     Inr (Planilha [(''Bradesco'',
       [\<lparr>Ano = 2021, Lucro_Liquido = Fin 120000, PL_Controlador = Fin 1100000,
         PL_Inicial = Fin 1000000, ROE = Fin (3 / 25), beta = Fin (1 / 2), Rf = Fin (1 / 100),
         Rm = Fin (1 / 10), Ke = Fin (11 / 200), spread_valor = Fin (13 / 200)\<rparr>])])"
  by code_simp

text \<open>
  C7.  The claim: without any disclosure year, or with no entity valued, the run aborts
  with a fatal error.  What holds: when no year can be downloaded the run raises
  RuntimeError.  With at least one year: an exception of the SELIC download or of the
  index download ends the run; so does the KeyError of a disclosure table without rows,
  when the roster is not empty; otherwise, when the ROE table of every bank is empty, the
  run prints its error line and ends without an exception and without a report; and
  when the names are distinct and the regression returns for every bank with a ROE row,
  \<open>criar_excel\<close> is called and every such bank is in the results with its valuation
  table, also when that table has no row.  \<open>criar_excel\<close> is never called on an empty set
  of results.
\<close>

theorem main_no_data:
  "((\<forall>a \<in> set ANOS. cvm w a = None) \<longrightarrow> main_run bancos w = Inl RuntimeError)
   \<and> (\<forall>dre bpp ok. baixar_dados_cvm (cvm w) ANOS = (dre, bpp, ok) \<and> ok \<noteq> [] \<longrightarrow>
        (\<forall>e. baixar_selic (bcb w) ANO_INICIAL ANO_FINAL = Inl e \<longrightarrow> main_run bancos w = Inl e) \<and>
        (\<forall>df_selic e. baixar_selic (bcb w) ANO_INICIAL ANO_FINAL = Inr df_selic \<and>
            baixar_ibov_anual (yf_ibov w) = Inl e \<longrightarrow> main_run bancos w = Inl e) \<and>
        (\<forall>df_selic df_ibov. baixar_selic (bcb w) ANO_INICIAL ANO_FINAL = Inr df_selic \<and>
            baixar_ibov_anual (yf_ibov w) = Inr df_ibov \<longrightarrow>
            ((dre = [] \<or> bpp = []) \<and> bancos \<noteq> [] \<longrightarrow> main_run bancos w = Inl KeyError) \<and>
            (dre \<noteq> [] \<and> bpp \<noteq> [] \<and> (\<forall>b \<in> set bancos. roe_do_banco dre bpp b = []) \<longrightarrow>
               main_run bancos w = Inr Erro_Nenhum_Banco) \<and>
            (dre \<noteq> [] \<and> bpp \<noteq> [] \<and> distinct (map nome bancos) \<and>
             (\<forall>c \<in> set bancos. roe_do_banco dre bpp c \<noteq> [] \<longrightarrow>
                (\<exists>bt. calcular_beta w (ticker c) = Inr bt)) \<longrightarrow>
               (\<forall>b \<in> set bancos. roe_do_banco dre bpp b \<noteq> [] \<longrightarrow>
                  (\<exists>res bt. main_run bancos w = Inr (Planilha res) \<and>
                     calcular_beta w (ticker b) = Inr bt \<and>
                     map_of res (nome b) =
                       Some (calcular_capm (roe_do_banco dre bpp b) df_selic df_ibov bt) \<and>
                     (calcular_capm (roe_do_banco dre bpp b) df_selic df_ibov bt = [] \<longrightarrow>
                        map_of res (nome b) = Some []))))))
   \<and> main_run bancos w \<noteq> Inr (Planilha [])"
proof (intro conjI impI allI ballI)
  assume "\<forall>a \<in> set ANOS. cvm w a = None"
  then have "baixar_dados_cvm (cvm w) ANOS = ([], [], [])"
    by (rule baixar_dados_cvm_unavailable)
  then show "main_run bancos w = Inl RuntimeError"
    by (simp add: main_run_def)
next
  fix dre bpp ok e
  assume "baixar_dados_cvm (cvm w) ANOS = (dre, bpp, ok) \<and> ok \<noteq> []"
    and "baixar_selic (bcb w) ANO_INICIAL ANO_FINAL = Inl e"
  then show "main_run bancos w = Inl e"
    by (simp add: main_run_def)
next
  fix dre bpp ok df_selic e
  assume "baixar_dados_cvm (cvm w) ANOS = (dre, bpp, ok) \<and> ok \<noteq> []"
    and "baixar_selic (bcb w) ANO_INICIAL ANO_FINAL = Inr df_selic \<and>
         baixar_ibov_anual (yf_ibov w) = Inl e"
  then show "main_run bancos w = Inl e"
    by (simp add: main_run_def)
next
  fix dre bpp ok df_selic df_ibov
  assume c: "baixar_dados_cvm (cvm w) ANOS = (dre, bpp, ok) \<and> ok \<noteq> []"
    and s: "baixar_selic (bcb w) ANO_INICIAL ANO_FINAL = Inr df_selic \<and>
            baixar_ibov_anual (yf_ibov w) = Inr df_ibov"
  then have run: "main_run bancos w =
       (case processar w dre bpp df_selic df_ibov bancos [] of
          Inl e \<Rightarrow> Inl e
        | Inr res \<Rightarrow> Inr (if res \<noteq> [] then Planilha res else Erro_Nenhum_Banco))"
    by (simp add: main_run_def)
  {
    assume "(dre = [] \<or> bpp = []) \<and> bancos \<noteq> []"
    then have "processar w dre bpp df_selic df_ibov bancos [] = Inl KeyError"
      by (intro processar_keyerror) simp_all
    then show "main_run bancos w = Inl KeyError"
      by (simp add: run)
  }
  {
    assume "dre \<noteq> [] \<and> bpp \<noteq> [] \<and> (\<forall>b \<in> set bancos. roe_do_banco dre bpp b = [])"
    then have "processar w dre bpp df_selic df_ibov bancos [] = Inr []"
      by (intro processar_all_empty) simp_all
    then show "main_run bancos w = Inr Erro_Nenhum_Banco"
      by (simp add: run)
  }
  {
    fix b
    assume h: "dre \<noteq> [] \<and> bpp \<noteq> [] \<and> distinct (map nome bancos) \<and>
             (\<forall>c \<in> set bancos. roe_do_banco dre bpp c \<noteq> [] \<longrightarrow>
                (\<exists>bt. calcular_beta w (ticker c) = Inr bt))"
      and b: "b \<in> set bancos" and roe: "roe_do_banco dre bpp b \<noteq> []"
    from c have c1: "baixar_dados_cvm (cvm w) ANOS = (dre, bpp, ok)" and c2: "ok \<noteq> []"
      by simp_all
    from s have s1: "baixar_selic (bcb w) ANO_INICIAL ANO_FINAL = Inr df_selic"
      and s2: "baixar_ibov_anual (yf_ibov w) = Inr df_ibov" by simp_all
    from h have h1: "dre \<noteq> []" and h2: "bpp \<noteq> []" and h3: "distinct (map nome bancos)"
      and h4: "\<forall>c \<in> set bancos. roe_do_banco dre bpp c \<noteq> [] \<longrightarrow>
                (\<exists>bt. calcular_beta w (ticker c) = Inr bt)" by simp_all
    have "\<exists>res bt. main_run bancos w = Inr (Planilha res) \<and> calcular_beta w (ticker b) = Inr bt \<and>
           map_of res (nome b) = Some (calcular_capm (roe_do_banco dre bpp b) df_selic df_ibov bt)"
      by (rule main_run_valued [OF c1 c2 s1 s2 h1 h2 h3 h4 b roe])
    then show "\<exists>res bt. main_run bancos w = Inr (Planilha res) \<and>
                     calcular_beta w (ticker b) = Inr bt \<and>
                     map_of res (nome b) =
                       Some (calcular_capm (roe_do_banco dre bpp b) df_selic df_ibov bt) \<and>
                     (calcular_capm (roe_do_banco dre bpp b) df_selic df_ibov bt = [] \<longrightarrow>
                        map_of res (nome b) = Some [])"
      by auto
  }
next
  show "main_run bancos w \<noteq> Inr (Planilha [])"
    by (auto simp add: main_run_def split: prod.splits if_splits sum.splits)
qed

theorem main_no_data_witness:
  "main_run BANCOS ((exemplo_mundo [] (Inl (Raised ''ValueError'')))\<lparr>cvm := (\<lambda>a. None)\<rparr>)
     = Inl RuntimeError \<and>
   main_run BANCOS ((exemplo_mundo [] (Inl (Raised ''ValueError'')))
       \<lparr>cvm := (\<lambda>a. if a = 2020 then exemplo_cvm a else None)\<rparr>) = Inr Erro_Nenhum_Banco \<and>
   (\<exists>res. main_run BANCOS ((exemplo_mundo [(Fin (1 / 10), Fin (1 / 5))] (Inr (Fin (1 / 2))))
              \<lparr>yf_ibov := Some [((2022, 1, 3), Fin 100)]\<rparr>) = Inr (Planilha res) \<and>
          map_of res ''Bradesco'' = Some [])"
proof -
  let ?w1 = "(exemplo_mundo [] (Inl (Raised ''ValueError'')))\<lparr>cvm := (\<lambda>a. None)\<rparr>"
  let ?w2 = "(exemplo_mundo [] (Inl (Raised ''ValueError'')))
       \<lparr>cvm := (\<lambda>a. if a = 2020 then exemplo_cvm a else None)\<rparr>"
  let ?w3 = "(exemplo_mundo [(Fin (1 / 10), Fin (1 / 5))] (Inr (Fin (1 / 2))))
              \<lparr>yf_ibov := Some [((2022, 1, 3), Fin 100)]\<rparr>"
  let ?b = "\<lparr>nome = ''Bradesco'', ticker = ''BBDC4.SA'', cnpj = ''60.746.948/0001-12''\<rparr>"
  let ?dre = "[exemplo_dre 2020 100, exemplo_dre 2021 120]"
  let ?bpp = "[exemplo_bpp 2020 1000, exemplo_capital 2020, exemplo_bpp 2021 1100, exemplo_capital 2021]"
  let ?roe = "[\<lparr>Ano = 2021, Lucro_Liquido = Fin 120000, PL_Controlador = Fin 1100000,
                 PL_Inicial = Fin 1000000, ROE = Fin (3 / 25)\<rparr>]"
  have "\<forall>a \<in> set ANOS. cvm ?w1 a = None"
    by simp
  with main_no_data [of ?w1 BANCOS] have 1: "main_run BANCOS ?w1 = Inl RuntimeError"
    by blast
  have cvm2: "baixar_dados_cvm (cvm ?w2) ANOS =
      ([exemplo_dre 2020 100], [exemplo_bpp 2020 1000, exemplo_capital 2020], [2020])"
    by code_simp
  have selic2: "baixar_selic (bcb ?w2) ANO_INICIAL ANO_FINAL = Inr [(2021, Fin (1 / 100))]"
    by code_simp
  have ibov2: "baixar_ibov_anual (yf_ibov ?w2) = Inr [(2021, Fin (1 / 10))]"
    by code_simp
  have roe2: "\<forall>b \<in> set BANCOS.
      roe_do_banco [exemplo_dre 2020 100] [exemplo_bpp 2020 1000, exemplo_capital 2020] b = []"
    by code_simp
  from main_no_data [of ?w2 BANCOS] cvm2 selic2 ibov2 roe2
  have 2: "main_run BANCOS ?w2 = Inr Erro_Nenhum_Banco"
    by blast
  have cvm3: "baixar_dados_cvm (cvm ?w3) ANOS = (?dre, ?bpp, [2020, 2021])"
    by code_simp
  have selic3: "baixar_selic (bcb ?w3) ANO_INICIAL ANO_FINAL = Inr [(2021, Fin (1 / 100))]"
    by code_simp
  have ibov3: "baixar_ibov_anual (yf_ibov ?w3) = Inr [(2022, Fin 0)]"
    by code_simp
  have names: "distinct (map nome BANCOS)"
    by code_simp
  have betas: "\<forall>c \<in> set BANCOS. roe_do_banco ?dre ?bpp c \<noteq> [] \<longrightarrow>
      (\<exists>bt. calcular_beta ?w3 (ticker c) = Inr bt)"
    by (simp add: calcular_beta_def exemplo_mundo_def)
  have b: "?b \<in> set BANCOS"
    by (simp add: BANCOS_def)
  have roe: "roe_do_banco ?dre ?bpp ?b = ?roe"
    by code_simp
  then have ne: "roe_do_banco ?dre ?bpp ?b \<noteq> []"
    by simp
  have empty: "calcular_capm ?roe [(2021, Fin (1 / 100))] [(2022, Fin 0)] bt = []" for bt
    by (simp add: calcular_capm_def merge_inner_def)
  from main_no_data [of ?w3 BANCOS] cvm3 selic3 ibov3 names betas b ne
  have "\<exists>res bt. main_run BANCOS ?w3 = Inr (Planilha res) \<and>
      (calcular_capm (roe_do_banco ?dre ?bpp ?b) [(2021, Fin (1 / 100))] [(2022, Fin 0)] bt = [] \<longrightarrow>
        map_of res (nome ?b) = Some [])"
    by blast
  then have 3: "\<exists>res. main_run BANCOS ?w3 = Inr (Planilha res) \<and> map_of res ''Bradesco'' = Some []"
    unfolding roe empty by auto
  from 1 2 3 show ?thesis
    by simp
qed

text \<open>
  With index prices for 2022 only, no row of the bank survives the join with the annual
  rates, and \<open>criar_excel\<close> is called for a bank without any valuation row.  And with the
  year 2020 alone no bank has a ROE row: the run ends in the branch that prints the error
  line, not with an exception.
\<close>

theorem main_report_without_valuation:
  "main ((exemplo_mundo [(Fin (1 / 10), Fin (1 / 5))] (Inr (Fin (1 / 2))))
            \<lparr>yf_ibov := Some [((2022, 1, 3), Fin 100)]\<rparr>)
     = Inr (Planilha [(''Bradesco'', [])]) \<and>
   main ((exemplo_mundo [] (Inl (Raised ''ValueError'')))
            \<lparr>cvm := (\<lambda>a. if a = 2020 then exemplo_cvm a else None)\<rparr>)
     = Inr Erro_Nenhum_Banco"
  by code_simp

end
